theory Spec2Isabelle
  imports Complex_Main
begin

section \<open>Weather 2 Wear: the single-page application\<close>

text \<open>
  A shallow embedding of \<^verbatim>\<open>W2W/single_page_app.py\<close>. Python exceptions are values of
  \<open>py_error\<close> and a function that can raise returns \<open>py_error + 'a\<close>; the Streamlit calls
  are events appended to a log; the two remote services are a parameter giving, for each
  request, what \<^verbatim>\<open>requests\<close> does with it, and the double-precision arithmetic of \<^verbatim>\<open>np.mean\<close>
  is a parameter as well.
\<close>

subsection \<open>Exceptions and floats\<close>

text \<open>
  The exceptions the program can meet. \<open>EmptyInputError\<close> is the name the specification
  gives to a failure on an empty forecast list; the program defines no such class and
  no path of the model raises it.
\<close>

datatype py_error =
    TypeError
  | IndexError
  | KeyError string
  | NameError
  | AttributeError
  | UnboundLocalError
  | ValueError
  | RequestException string
  | OSError
  | EmptyInputError

text \<open>
  A Python float is a double: a finite value (\<open>Float x\<close>, with \<open>x\<close> the real number it
  stands for), an infinity or \<open>nan\<close>. The numbers of the weather reply are such floats.
\<close>

datatype pyfloat = Float real | PosInf | NegInf | NaN

text \<open>
  \<^verbatim>\<open>np.mean\<close> never raises on a list of floats. The mean of an empty list is \<open>nan\<close> (with a
  warning, not an exception). For a non-empty list numpy adds the doubles and divides
  by their number in double precision, rounding at each step and overflowing to an
  infinity; that arithmetic is not modelled but taken as the parameter \<open>float64_mean\<close>,
  so that no statement below rests on how doubles round.
\<close>

definition np_mean :: "(pyfloat list \<Rightarrow> pyfloat) \<Rightarrow> pyfloat list \<Rightarrow> pyfloat" where
  "np_mean float64_mean xs = (if xs = [] then NaN else float64_mean xs)"

subsection \<open>The names bound by the imports\<close>

text \<open>
  Line 7 binds \<^verbatim>\<open>Counter\<close> to \<^verbatim>\<open>collections.Counter\<close>; line 9 binds the same name to
  \<^verbatim>\<open>prometheus_client.Counter\<close>. Bindings are made in execution order, a later one
  replacing an earlier one, and a function body reads the module's globals when it runs.
\<close>

datatype counter_class = collections_Counter | prometheus_Counter

definition import_bindings :: "(string \<times> counter_class) list" where
  "import_bindings =
     [(''Counter'', collections_Counter),
      (''Counter'', prometheus_Counter)]"

fun bind_names :: "(string \<rightharpoonup> 'a) \<Rightarrow> (string \<times> 'a) list \<Rightarrow> (string \<rightharpoonup> 'a)" where
  "bind_names g [] = g"
| "bind_names g ((n, v) # bs) = bind_names (g(n \<mapsto> v)) bs"

definition module_globals :: "string \<rightharpoonup> counter_class" where
  "module_globals = bind_names Map.empty import_bindings"

text \<open>
  \<^verbatim>\<open>collections.Counter(iterable)\<close>: a dictionary of counts, kept in insertion order
  (an association list, first-seen label first).
\<close>

fun count_element :: "(string \<times> nat) list \<Rightarrow> string \<Rightarrow> (string \<times> nat) list" where
  "count_element [] k = [(k, 1)]"
| "count_element ((k', c) # kvs) k =
     (if k' = k then (k', c + 1) # kvs else (k', c) # count_element kvs k)"

definition count_elements :: "string list \<Rightarrow> (string \<times> nat) list" where
  "count_elements xs = foldl count_element [] xs"

text \<open>
  Calling the class the name is bound to, with the list of labels as its only argument.
  \<^verbatim>\<open>prometheus_client.Counter\<close> takes a name and a documentation string (line 13 passes
  both); called with one argument it raises \<^verbatim>\<open>TypeError\<close>, so no object of that class is
  ever asked for \<^verbatim>\<open>most_common\<close>, a method it does not have.
\<close>

fun call_Counter :: "counter_class \<Rightarrow> string list \<Rightarrow> py_error + (string \<times> nat) list" where
  "call_Counter collections_Counter xs = Inr (count_elements xs)"
| "call_Counter prometheus_Counter xs = Inl TypeError"

text \<open>
  \<^verbatim>\<open>most_common(1)\<close> is \<^verbatim>\<open>heapq.nlargest(1, items, key=count)\<close>, which for one element is
  \<^verbatim>\<open>max\<close> over the items in dictionary order: the first item of maximal count, replaced
  only by a strictly larger one; the empty list for an empty counter.
\<close>

definition keep_larger :: "string \<times> nat \<Rightarrow> string \<times> nat \<Rightarrow> string \<times> nat" where
  "keep_larger best y = (if snd best < snd y then y else best)"

definition most_common_1 :: "(string \<times> nat) list \<Rightarrow> (string \<times> nat) list" where
  "most_common_1 items =
     (case items of
        [] \<Rightarrow> []
      | x # xs \<Rightarrow> [foldl keep_larger x xs])"

subsection \<open>The weather reply\<close>

text \<open>
  The JSON body of the weather service, with the keys the program reads. A key the
  program tests for (\<^verbatim>\<open>'city' in weather_data\<close>, \<^verbatim>\<open>'main' in forecast\<close>) or may find missing
  is an option; \<open>forecast_list\<close> is the key \<^verbatim>\<open>'list'\<close>, \<open>w_main\<close> the key \<^verbatim>\<open>'main'\<close> of a
  weather entry.
\<close>

record main_block =
  temp :: pyfloat
  humidity :: pyfloat

record wind_block =
  speed :: pyfloat

record weather_entry =
  w_main :: string
  description :: string
  icon :: string

record forecast =
  dt_txt :: "string option"
  weather :: "weather_entry list option"
  main :: "main_block option"
  wind :: "wind_block option"

record city_block =
  name :: string
  country :: string

record weather_data =
  city :: "city_block option"
  forecast_list :: "forecast list option"

subsection \<open>\<^verbatim>\<open>process_weather_data\<close>\<close>

text \<open>
  The loop of lines 153 to 157 appends to four lists; a missing key or an empty
  \<^verbatim>\<open>'weather'\<close> list raises at the subscript that meets it.
\<close>

type_synonym series = "pyfloat list \<times> pyfloat list \<times> pyfloat list \<times> string list"

fun collect :: "forecast list \<Rightarrow> series \<Rightarrow> py_error + series" where
  "collect [] acc = Inr acc"
| "collect (f # fs) (temps, humidities, wind_speeds, weather_main_conditions) =
     (case main f of
        None \<Rightarrow> Inl (KeyError ''main'')
      | Some m \<Rightarrow>
     (case wind f of
        None \<Rightarrow> Inl (KeyError ''wind'')
      | Some w \<Rightarrow>
     (case weather f of
        None \<Rightarrow> Inl (KeyError ''weather'')
      | Some [] \<Rightarrow> Inl IndexError
      | Some (e # _) \<Rightarrow>
          collect fs
            (temps @ [temp m], humidities @ [humidity m],
             wind_speeds @ [speed w], weather_main_conditions @ [w_main e]))))"

definition process_weather_data_in ::
  "(pyfloat list \<Rightarrow> pyfloat) \<Rightarrow> (string \<rightharpoonup> counter_class) \<Rightarrow> weather_data
     \<Rightarrow> py_error + (pyfloat \<times> pyfloat \<times> pyfloat \<times> string)"
where
  "process_weather_data_in float64_mean globals weather_data =
     (case forecast_list weather_data of
        None \<Rightarrow> Inl (KeyError ''list'')
      | Some fs \<Rightarrow>
     (case collect fs ([], [], [], []) of
        Inl e \<Rightarrow> Inl e
      | Inr (temps, humidities, wind_speeds, weather_main_conditions) \<Rightarrow>
          let avg_temp = np_mean float64_mean temps;
              avg_humidity = np_mean float64_mean humidities;
              avg_wind_speed = np_mean float64_mean wind_speeds
          in
     (case globals ''Counter'' of
        None \<Rightarrow> Inl NameError
      | Some cls \<Rightarrow>
     (case call_Counter cls weather_main_conditions of
        Inl e \<Rightarrow> Inl e
      | Inr counter \<Rightarrow>
     (case most_common_1 counter of
        [] \<Rightarrow> Inl IndexError
      | (most_common_weather, _) # _ \<Rightarrow>
          Inr (avg_temp, avg_humidity, avg_wind_speed, most_common_weather))))))"

text \<open>The function as the module defines it: its globals are the module's.\<close>

definition process_weather_data ::
  "(pyfloat list \<Rightarrow> pyfloat) \<Rightarrow> weather_data \<Rightarrow> py_error + (pyfloat \<times> pyfloat \<times> pyfloat \<times> string)"
where
  "process_weather_data float64_mean = process_weather_data_in float64_mean module_globals"

text \<open>The same body with only line 7's import in force, for comparison.\<close>

definition collections_globals :: "string \<rightharpoonup> counter_class" where
  "collections_globals = bind_names Map.empty [(''Counter'', collections_Counter)]"

text \<open>A forecast entry with every key present and finite numbers.\<close>

definition sample :: "real \<Rightarrow> real \<Rightarrow> real \<Rightarrow> string \<Rightarrow> forecast" where
  "sample t h w c =
     \<lparr>dt_txt = Some ''2024-01-01 00:00:00'',
      weather = Some [\<lparr>w_main = c, description = ''light'', icon = ''10d''\<rparr>],
      main = Some \<lparr>temp = Float t, humidity = Float h\<rparr>,
      wind = Some \<lparr>speed = Float w\<rparr>\<rparr>"

definition forecast_set :: "forecast list \<Rightarrow> weather_data" where
  "forecast_set fs = \<lparr>city = None, forecast_list = Some fs\<rparr>"

subsection \<open>Strings\<close>

definition nl :: string where
  "nl = [CHR 0x0A]"

fun digit_char :: "nat \<Rightarrow> char" where
  "digit_char d = char_of (48 + d)"

text \<open>\<^verbatim>\<open>str\<close> of a non-negative integer: its decimal digits.\<close>

fun str_nat :: "nat \<Rightarrow> string" where
  "str_nat n = (if n < 10 then [digit_char n] else str_nat (n div 10) @ [digit_char (n mod 10)])"

declare str_nat.simps [simp del]

text \<open>\<^verbatim>\<open>str.lower\<close> on ASCII text.\<close>

definition lower :: "string \<Rightarrow> string" where
  "lower s = map (\<lambda>c. let n = (of_char c :: nat) in if 65 \<le> n \<and> n \<le> 90 then char_of (n + 32) else c) s"

subsection \<open>\<^verbatim>\<open>get_weather_icon_html\<close>\<close>

definition get_weather_icon_html :: "string \<Rightarrow> string" where
  \<open>get_weather_icon_html icon_code =
     (let base_url = ''https://openweathermap.org/img/wn/''
      in ''<img src="'' @ base_url @ icon_code @ ''@2x.png" width="50">'')\<close>

subsection \<open>\<^verbatim>\<open>format_outfit_suggestions\<close>\<close>

text \<open>A dictionary subscript: \<^verbatim>\<open>KeyError\<close> on a missing key.\<close>

definition getitem :: "(string \<rightharpoonup> 'v) \<Rightarrow> string \<Rightarrow> py_error + 'v" where
  "getitem d k = (case d k of None \<Rightarrow> Inl (KeyError k) | Some v \<Rightarrow> Inr v)"

text \<open>
  The f-string evaluates its five subscripts in order, so the first missing key raises
  and no text is produced.
\<close>

definition format_outfit_suggestions :: "(string \<rightharpoonup> string) \<Rightarrow> py_error + string" where
  \<open>format_outfit_suggestions suggestions =
     (case getitem suggestions ''Top'' of Inl e \<Rightarrow> Inl e | Inr top_slot \<Rightarrow>
     (case getitem suggestions ''Bottom'' of Inl e \<Rightarrow> Inl e | Inr bottom \<Rightarrow>
     (case getitem suggestions ''Footwear'' of Inl e \<Rightarrow> Inl e | Inr footwear \<Rightarrow>
     (case getitem suggestions ''Outerwear'' of Inl e \<Rightarrow> Inl e | Inr outerwear \<Rightarrow>
     (case getitem suggestions ''Accessories'' of Inl e \<Rightarrow> Inl e | Inr accessories \<Rightarrow>
        Inr (nl @
          ''    <div class="response-info">'' @ nl @
          ''        <strong>Top:</strong> '' @ top_slot @ ''<br>'' @ nl @
          ''        <strong>Bottom:</strong> '' @ bottom @ ''<br>'' @ nl @
          ''        <strong>Footwear:</strong> '' @ footwear @ ''<br>'' @ nl @
          ''        <strong>Outerwear:</strong> '' @ outerwear @ ''<br>'' @ nl @
          ''        <strong>Accessories:</strong> '' @ accessories @ ''<br>'' @ nl @
          ''    </div>'' @ nl @
          ''    ''))))))\<close>

definition clothing_slots :: "string list" where
  "clothing_slots = [''Top'', ''Bottom'', ''Footwear'', ''Outerwear'', ''Accessories'']"

subsection \<open>The page and the network\<close>

text \<open>
  What the program sends to Streamlit, in order. The events of the weather summary and
  of the forecast details carry the values their markup is built from (the summary
  prints its floats with two decimals). \<^verbatim>\<open>time.sleep\<close> leaves no event.
\<close>

datatype ui_event =
    St_title string
  | St_markdown string
  | St_header string
  | St_subheader string
  | St_write "string list"
  | St_error string
  | St_success string
  | St_progress nat string
  | St_progress_empty
  | St_expander string
  | Summary_markdown string pyfloat pyfloat pyfloat
  | Forecast_weather_markdown string string string
  | Forecast_temperature_markdown pyfloat
  | Forecast_humidity_markdown pyfloat
  | Forecast_wind_markdown pyfloat

text \<open>The body posted to the recommendation service.\<close>

record aggregated_data =
  activity_level :: string
  activity_type :: string
  avg_temp :: pyfloat
  avg_humidity :: pyfloat
  avg_wind_speed :: pyfloat
  most_common_weather :: string

datatype request =
    GET string
  | POST string "aggregated_data option" "(string \<times> string) list"

text \<open>
  A reply: its status line, its text (\<open>resp_text\<close>) and what \<^verbatim>\<open>.json()\<close> gives (a weather dictionary, a
  dictionary of suggestions, or \<^verbatim>\<open>ValueError\<close> for a body that is not JSON).
\<close>

datatype json_body =
    Not_json
  | Weather_json weather_data
  | Suggestions_json "(string \<times> string) list"

record response =
  status_code :: nat
  reason :: string
  url :: string
  resp_text :: string
  body :: json_body

text \<open>
  One exchange of \<^verbatim>\<open>requests.get\<close> or \<^verbatim>\<open>requests.post\<close>: a \<^verbatim>\<open>RequestException\<close> with its
  message (timeout, DNS failure, refused connection), or a reply.
\<close>

datatype exchange = Raises string | Returns response

type_synonym network = "request \<Rightarrow> exchange"

record app_state =
  ui :: "ui_event list"
  session_state :: "string \<rightharpoonup> string"
  sent :: "request list"

definition emit :: "ui_event \<Rightarrow> app_state \<Rightarrow> app_state" where
  "emit e s = s\<lparr>ui := ui s @ [e]\<rparr>"

text \<open>
  \<^verbatim>\<open>Response.raise_for_status\<close> raises \<^verbatim>\<open>HTTPError\<close> (a \<^verbatim>\<open>RequestException\<close>) for a status
  from 400 to 599 and for no other; \<^verbatim>\<open>Response.ok\<close>, which is also the truth value of a
  reply, is that it does not raise.
\<close>

definition raise_for_status :: "response \<Rightarrow> py_error + unit" where
  "raise_for_status r =
     (if 400 \<le> status_code r \<and> status_code r < 500 then
        Inl (RequestException
          (str_nat (status_code r) @ '' Client Error: '' @ reason r @ '' for url: '' @ url r))
      else if 500 \<le> status_code r \<and> status_code r < 600 then
        Inl (RequestException
          (str_nat (status_code r) @ '' Server Error: '' @ reason r @ '' for url: '' @ url r))
      else Inr ())"

definition ok :: "response \<Rightarrow> bool" where
  "ok r = (case raise_for_status r of Inl _ \<Rightarrow> False | Inr _ \<Rightarrow> True)"

definition requests_get :: "network \<Rightarrow> string \<Rightarrow> app_state \<Rightarrow> app_state \<times> (py_error + response)" where
  "requests_get net u s =
     (let s' = s\<lparr>sent := sent s @ [GET u]\<rparr>
      in case net (GET u) of
           Raises msg \<Rightarrow> (s', Inl (RequestException msg))
         | Returns r \<Rightarrow> (s', Inr r))"

definition requests_post ::
  "network \<Rightarrow> string \<Rightarrow> aggregated_data option \<Rightarrow> (string \<times> string) list \<Rightarrow> app_state
     \<Rightarrow> app_state \<times> (py_error + response)"
where
  "requests_post net u json headers s =
     (let s' = s\<lparr>sent := sent s @ [POST u json headers]\<rparr>
      in case net (POST u json headers) of
           Raises msg \<Rightarrow> (s', Inl (RequestException msg))
         | Returns r \<Rightarrow> (s', Inr r))"

subsection \<open>\<^verbatim>\<open>send_request\<close>\<close>

text \<open>
  The body of the \<^verbatim>\<open>try\<close>: the local \<^verbatim>\<open>response\<close> is bound by the \<^verbatim>\<open>GET\<close> and the \<^verbatim>\<open>POST\<close>
  branch and by no other (\<open>None\<close> here is the unbound local), and reading it unbound
  raises \<^verbatim>\<open>UnboundLocalError\<close>.
\<close>

definition send_request_try ::
  "network \<Rightarrow> string \<Rightarrow> string \<Rightarrow> aggregated_data option \<Rightarrow> app_state
     \<Rightarrow> app_state \<times> (py_error + response)"
where
  "send_request_try net u method json_data s =
     (let (s', bound) =
            (if method = ''GET'' then
               (case requests_get net u s of
                  (s', Inl e) \<Rightarrow> (s', Inl e)
                | (s', Inr r) \<Rightarrow> (s', Inr (Some r)))
             else if method = ''POST'' then
               (let headers = [(''Content-Type'', ''application/json'')]
                in case requests_post net u json_data headers s of
                     (s', Inl e) \<Rightarrow> (s', Inl e)
                   | (s', Inr r) \<Rightarrow> (s', Inr (Some r)))
             else (s, Inr None))
      in case bound of
           Inl e \<Rightarrow> (s', Inl e)
         | Inr None \<Rightarrow> (s', Inl UnboundLocalError)
         | Inr (Some r) \<Rightarrow>
             (case raise_for_status r of
                Inl e \<Rightarrow> (s', Inl e)
              | Inr _ \<Rightarrow> (s', Inr r)))"

text \<open>
  The handler catches \<^verbatim>\<open>requests.RequestException\<close> only: it shows the message and the
  result is \<^verbatim>\<open>None\<close>. Any other exception leaves the function.
\<close>

definition send_request ::
  "network \<Rightarrow> string \<Rightarrow> string \<Rightarrow> aggregated_data option \<Rightarrow> app_state
     \<Rightarrow> app_state \<times> (py_error + response option)"
where
  "send_request net u method json_data s =
     (case send_request_try net u method json_data s of
        (s', Inl (RequestException msg)) \<Rightarrow>
          (emit (St_error (''HTTP request failed: '' @ msg)) s', Inr None)
      | (s', Inl e) \<Rightarrow> (s', Inl e)
      | (s', Inr r) \<Rightarrow> (s', Inr (Some r)))"

subsection \<open>\<^verbatim>\<open>show_loading_bar\<close>, \<^verbatim>\<open>display_weather_summary\<close>, \<^verbatim>\<open>display_forecasts\<close>\<close>

text \<open>The loop of lines 102 to 104 runs \<^verbatim>\<open>total\<close> times (\<open>total_steps\<close> here).\<close>

definition show_loading_bar :: "string \<Rightarrow> nat \<Rightarrow> app_state \<Rightarrow> app_state" where
  "show_loading_bar message total_steps s =
     s\<lparr>ui := ui s @ St_progress 0 message #
                map (\<lambda>percent. St_progress (percent + 1) message) [0..<total_steps] @
                [St_progress_empty]\<rparr>"

definition display_weather_summary ::
  "pyfloat \<Rightarrow> pyfloat \<Rightarrow> pyfloat \<Rightarrow> string \<Rightarrow> app_state \<Rightarrow> app_state"
where
  "display_weather_summary a_temp a_humidity a_wind_speed common s =
     emit (Summary_markdown common a_temp a_humidity a_wind_speed)
       (emit (St_subheader ''Average weather over the next 24 hours'') s)"

text \<open>
  One entry of the forecast list: \<^verbatim>\<open>forecast['dt_txt']\<close> is read unguarded, the three
  blocks behind their \<^verbatim>\<open>in\<close> tests.
\<close>

definition display_forecast :: "forecast \<Rightarrow> app_state \<Rightarrow> app_state \<times> (py_error + unit)" where
  "display_forecast f s =
     (case dt_txt f of
        None \<Rightarrow> (s, Inl (KeyError ''dt_txt''))
      | Some dt \<Rightarrow>
          let s1 = emit (St_expander (''Details for '' @ dt)) s
          in
     (case (case weather f of
              None \<Rightarrow> (s1, Inr ())
            | Some [] \<Rightarrow> (s1, Inl IndexError)
            | Some (w # _) \<Rightarrow>
                (let icon_html = get_weather_icon_html (icon w)
                 in (emit (Forecast_weather_markdown (w_main w) (description w) icon_html) s1,
                     Inr ())))
      of
        (s2, Inl e) \<Rightarrow> (s2, Inl e)
      | (s2, Inr _) \<Rightarrow>
          let s3 = (case main f of
                      None \<Rightarrow> s2
                    | Some m \<Rightarrow>
                        emit (Forecast_humidity_markdown (humidity m))
                          (emit (Forecast_temperature_markdown (temp m)) s2));
              s4 = (case wind f of
                      None \<Rightarrow> s3
                    | Some w \<Rightarrow> emit (Forecast_wind_markdown (speed w)) s3)
          in (s4, Inr ())))"

fun display_forecast_loop :: "forecast list \<Rightarrow> app_state \<Rightarrow> app_state \<times> (py_error + unit)" where
  "display_forecast_loop [] s = (s, Inr ())"
| "display_forecast_loop (f # fs) s =
     (case display_forecast f s of
        (s', Inl e) \<Rightarrow> (s', Inl e)
      | (s', Inr _) \<Rightarrow> display_forecast_loop fs s')"

definition display_forecasts :: "forecast list \<Rightarrow> app_state \<Rightarrow> app_state \<times> (py_error + unit)" where
  "display_forecasts forecasts s =
     display_forecast_loop forecasts
       (emit (St_subheader ''Three Hourly Forecasts (Click to Expand)'') s)"

subsection \<open>\<^verbatim>\<open>single_page_app\<close>\<close>

text \<open>What the user did with the three widgets and the button in this run of the page.\<close>

record user_input =
  chosen_level :: string
  chosen_type :: string
  entered_location :: string
  submit_clicked :: bool

text \<open>\<^verbatim>\<open>.json()\<close> of a reply, read as the weather dictionary or as the suggestions.\<close>

definition json_weather :: "response \<Rightarrow> py_error + weather_data" where
  "json_weather r =
     (case body r of
        Not_json \<Rightarrow> Inl ValueError
      | Weather_json wd \<Rightarrow> Inr wd
      | Suggestions_json _ \<Rightarrow> Inr \<lparr>city = None, forecast_list = None\<rparr>)"

definition json_suggestions :: "response \<Rightarrow> py_error + (string \<rightharpoonup> string)" where
  "json_suggestions r =
     (case body r of
        Not_json \<Rightarrow> Inl ValueError
      | Weather_json _ \<Rightarrow> Inr Map.empty
      | Suggestions_json kvs \<Rightarrow> Inr (map_of kvs))"

text \<open>
  \<^verbatim>\<open>x.status_code\<close> and \<^verbatim>\<open>x.text\<close> for what \<^verbatim>\<open>send_request\<close> returned: \<^verbatim>\<open>None\<close> has neither
  attribute.
\<close>

definition attr_status_code :: "response option \<Rightarrow> py_error + nat" where
  "attr_status_code x = (case x of None \<Rightarrow> Inl AttributeError | Some r \<Rightarrow> Inr (status_code r))"

definition attr_text :: "response option \<Rightarrow> py_error + string" where
  "attr_text x = (case x of None \<Rightarrow> Inl AttributeError | Some r \<Rightarrow> Inr (resp_text r))"

text \<open>The test \<^verbatim>\<open>x and x.status_code == 200\<close>.\<close>

definition is_200 :: "response option \<Rightarrow> bool" where
  "is_200 x = (case x of None \<Rightarrow> False | Some r \<Rightarrow> ok r \<and> status_code r = 200)"

text \<open>An \<^verbatim>\<open>else\<close> branch of lines 357 to 359 and 366 to 368.\<close>

definition report_failure ::
  "string \<Rightarrow> response option \<Rightarrow> app_state \<Rightarrow> app_state \<times> (py_error + unit)"
where
  "report_failure what x s =
     (case attr_status_code x of
        Inl e \<Rightarrow> (s, Inl e)
      | Inr code \<Rightarrow>
          let s1 = emit (St_error (what @ '' Status code: '' @ str_nat code)) s
          in
     (case attr_text x of
        Inl e \<Rightarrow> (s1, Inl e)
      | Inr t \<Rightarrow> (emit (St_write [''Response content:'', t]) s1, Inr ())))"

definition weather_url :: "string \<Rightarrow> string" where
  "weather_url location =
     ''https://qpfmxgvcalf556dxkuuwki3nri0drjzb.lambda-url.us-west-1.on.aws//?location='' @ location"

definition lambda_url :: string where
  "lambda_url = ''https://igg7yuddu27z2bmtbroylfsarm0jxzrb.lambda-url.us-west-1.on.aws/''"

text \<open>Lines 333 to 361: the branch for a reply that has a \<^verbatim>\<open>'list'\<close>.\<close>

definition list_branch ::
  "(pyfloat list \<Rightarrow> pyfloat) \<Rightarrow> (string \<rightharpoonup> counter_class) \<Rightarrow> network \<Rightarrow> user_input
     \<Rightarrow> weather_data \<Rightarrow> app_state \<Rightarrow> app_state \<times> (py_error + unit)"
where
  \<open>list_branch float64_mean globals net inp wd s =
     (case process_weather_data_in float64_mean globals wd of
        Inl e \<Rightarrow> (s, Inl e)
      | Inr (a_temp, a_humidity, a_wind_speed, common) \<Rightarrow>
          let s1 = display_weather_summary a_temp a_humidity a_wind_speed common s;
              aggregated = \<lparr>activity_level = lower (chosen_level inp),
                            activity_type = lower (chosen_type inp),
                            avg_temp = a_temp,
                            avg_humidity = a_humidity,
                            avg_wind_speed = a_wind_speed,
                            most_common_weather = common\<rparr>;
              s2 = show_loading_bar ''Generating Outfit Suggestions'' 100 s1
          in
     (case send_request net lambda_url ''POST'' (Some aggregated) s2 of
        (s3, Inl e) \<Rightarrow> (s3, Inl e)
      | (s3, Inr lambda_response) \<Rightarrow>
     (case (if is_200 lambda_response then
              (let s4 = emit (St_subheader ''AI Generated Clothing Recommendations'') s3
               in case lambda_response of
                    None \<Rightarrow> (s4, Inl AttributeError)
                  | Some r \<Rightarrow>
               (case json_suggestions r of
                  Inl e \<Rightarrow> (s4, Inl e)
                | Inr suggestions \<Rightarrow>
               (case format_outfit_suggestions suggestions of
                  Inl e \<Rightarrow> (s4, Inl e)
                | Inr formatted \<Rightarrow>
                    (emit (St_markdown (''<div class='' @ [CHR 0x27] @ ''response-info'' @ [CHR 0x27] @ ''>''
                                          @ formatted @ ''</div>'')) s4,
                     Inr ()))))
            else report_failure ''Failed to send data.'' lambda_response s3)
      of
        (s5, Inl e) \<Rightarrow> (s5, Inl e)
      | (s5, Inr _) \<Rightarrow>
     (case forecast_list wd of
        None \<Rightarrow> (s5, Inl (KeyError ''list''))
      | Some fs \<Rightarrow> display_forecasts fs s5))))\<close>

text \<open>Lines 325 to 361: the body of the \<^verbatim>\<open>try\<close>.\<close>

definition weather_try ::
  "(pyfloat list \<Rightarrow> pyfloat) \<Rightarrow> (string \<rightharpoonup> counter_class) \<Rightarrow> network \<Rightarrow> user_input
     \<Rightarrow> response \<Rightarrow> app_state \<Rightarrow> app_state \<times> (py_error + unit)"
where
  "weather_try float64_mean globals net inp weather_response s =
     (case json_weather weather_response of
        Inl e \<Rightarrow> (s, Inl e)
      | Inr wd \<Rightarrow>
          let s1 = (case city wd of
                      None \<Rightarrow> s
                    | Some c \<Rightarrow>
                        emit (St_subheader (''Weather Information for '' @ name c @ '', '' @ country c))
                          (emit (St_success ''Weather information retrieved successfully!'') s))
          in (case forecast_list wd of
                None \<Rightarrow> (s1, Inr ())
              | Some _ \<Rightarrow> list_branch float64_mean globals net inp wd s1))"

text \<open>The style sheet of lines 281 to 300.\<close>

definition page_style :: string where
  \<open>page_style = concat (map (\<lambda>l. l @ nl)
     [[],
      ''        <link rel="stylesheet" href="https://cdnjs.cloudflare.com/ajax/libs/font-awesome/5.15.4/css/all.min.css">'',
      ''        <style>'',
      ''            .weather-info {'',
      ''                font-size: 24px;'',
      ''                display: flex;'',
      ''                align-items: center;'',
      ''                justify-content: space-between;'',
      ''                padding: 10px 0;'',
      ''            }'',
      ''            .icon {'',
      ''                font-size: 24px;'',
      ''                margin-left: 10px;'',
      ''            }'',
      ''            .response-info {'',
      ''                font-size: 24px;'',
      ''                padding: 10px 0;'',
      ''            }'',
      ''        </style>'']) @ ''    ''\<close>

text \<open>
  The page controller, with the globals its callees read, and the arithmetic of
  \<^verbatim>\<open>np.mean\<close>, as parameters. The handler of
  line 363 catches \<^verbatim>\<open>ValueError\<close> and nothing else; the \<^verbatim>\<open>else\<close> of line 366 is outside
  the \<^verbatim>\<open>try\<close>.
\<close>

definition single_page_app_in ::
  "(pyfloat list \<Rightarrow> pyfloat) \<Rightarrow> (string \<rightharpoonup> counter_class) \<Rightarrow> network \<Rightarrow> user_input
     \<Rightarrow> app_state \<Rightarrow> app_state \<times> (py_error + unit)"
where
  "single_page_app_in float64_mean globals net inp s0 =
     (let s1 = emit (St_title ''Weather 2 Wear'') s0;
          s2 = emit (St_markdown page_style) s1;
          s3 = emit (St_header ''Tell me about you!'') s2;
          s4 = emit (St_write [''Select your activity preferences and location (use a postcode or name)'']) s3;
          a_level = chosen_level inp;
          a_type = chosen_type inp;
          location = entered_location inp
      in
        if submit_clicked inp then
          if location \<noteq> [] then
            (let s5 = s4\<lparr>session_state := session_state s4 ++
                         map_of [(''activity_level'', a_level),
                                 (''activity_type'', a_type),
                                 (''location'', location),
                                 (''submitted'', ''True'')]\<rparr>;
                 s6 = show_loading_bar ''Fetching Weather Information'' 100 s5
             in case send_request net (weather_url location) ''GET'' None s6 of
                  (s7, Inl e) \<Rightarrow> (s7, Inl e)
                | (s7, Inr weather_response) \<Rightarrow>
                    if is_200 weather_response then
                      (case weather_response of
                         None \<Rightarrow> (s7, Inl AttributeError)
                       | Some r \<Rightarrow>
                      (case weather_try float64_mean globals net inp r s7 of
                         (s8, Inl ValueError) \<Rightarrow>
                           (emit (St_write [''ValueError''])
                              (emit (St_error ''Failed to read weather data.'') s8),
                            Inr ())
                       | (s8, Inl e) \<Rightarrow> (s8, Inl e)
                       | (s8, Inr _) \<Rightarrow> (s8, Inr ())))
                    else report_failure ''Failed to fetch weather data.'' weather_response s7)
          else (emit (St_error ''Please enter a location.'') s4, Inr ())
        else (s4, Inr ()))"

definition single_page_app ::
  "(pyfloat list \<Rightarrow> pyfloat) \<Rightarrow> network \<Rightarrow> user_input \<Rightarrow> app_state
     \<Rightarrow> app_state \<times> (py_error + unit)"
where
  "single_page_app float64_mean = single_page_app_in float64_mean module_globals"

subsection \<open>The top level of the module\<close>

text \<open>
  Lines 13 to 24 run when the module is loaded, before any \<^verbatim>\<open>def\<close> below them:
  a Prometheus counter, \<^verbatim>\<open>handle_request\<close>, the metrics server on port 8000, and the loop
  \<^verbatim>\<open>while True: handle_request()\<close>. \<open>randint k\<close> is the \<open>k\<close>-th draw of
  \<^verbatim>\<open>random.randint(1, 5)\<close>, the seconds slept.
\<close>

record telemetry =
  requests_total :: nat
  slept :: nat

definition handle_request :: "(nat \<Rightarrow> nat) \<Rightarrow> telemetry \<Rightarrow> telemetry" where
  "handle_request randint t =
     t\<lparr>requests_total := requests_total t + 1, slept := slept t + randint (requests_total t)\<rparr>"

text \<open>\<^verbatim>\<open>start_http_server(8000)\<close> raises \<^verbatim>\<open>OSError\<close> when the port is taken.\<close>

definition start_http_server :: "bool \<Rightarrow> nat \<Rightarrow> py_error + unit" where
  "start_http_server port_free port = (if port_free then Inr () else Inl OSError)"

text \<open>The loop of lines 23 and 24: its value is the state it leaves, if it ever leaves.\<close>

partial_function (option) while_True :: "(nat \<Rightarrow> nat) \<Rightarrow> telemetry \<Rightarrow> telemetry option" where
  "while_True randint t = while_True randint (handle_request randint t)"

text \<open>
  Loading the module: \<open>None\<close> when it never finishes, an error when it raises, and
  otherwise the result of line 373 to 375 (\<open>is_main\<close> is \<^verbatim>\<open>__name__ == "__main__"\<close>; the page
  controller runs on the given network, input and page).
\<close>

definition module_toplevel ::
  "(pyfloat list \<Rightarrow> pyfloat) \<Rightarrow> (nat \<Rightarrow> nat) \<Rightarrow> bool \<Rightarrow> bool \<Rightarrow> network \<Rightarrow> user_input
     \<Rightarrow> app_state \<Rightarrow> (app_state \<times> (py_error + unit)) option"
where
  "module_toplevel float64_mean randint port_free is_main net inp s =
     (let c = \<lparr>requests_total = 0, slept = 0\<rparr>
      in case start_http_server port_free 8000 of
           Inl e \<Rightarrow> Some (s, Inl e)
         | Inr _ \<Rightarrow>
             (case while_True randint c of
                None \<Rightarrow> None
              | Some _ \<Rightarrow>
                  if is_main then Some (single_page_app float64_mean net inp s)
                  else Some (s, Inr ())))"

subsection \<open>Notions and inputs used in the statements\<close>

text \<open>
  The request that \<^verbatim>\<open>send_request\<close> makes for a method, and the exchanges that raise
  inside its \<^verbatim>\<open>try\<close>: a transport failure, or a reply with a status from 400 to 599.
\<close>

definition request_for :: "string \<Rightarrow> string \<Rightarrow> aggregated_data option \<Rightarrow> request" where
  "request_for method u json_data =
     (if method = ''GET'' then GET u
      else POST u json_data [(''Content-Type'', ''application/json'')])"

definition exchange_fails :: "exchange \<Rightarrow> bool" where
  "exchange_fails x =
     (case x of Raises _ \<Rightarrow> True | Returns r \<Rightarrow> 400 \<le> status_code r \<and> status_code r < 600)"

definition blank_page :: app_state where
  "blank_page = \<lparr>ui = [], session_state = Map.empty, sent = []\<rparr>"

text \<open>
  The reply with status 304 from the address \<open>u\<close>, and a network on which both services
  answer every request with it.
\<close>

definition not_modified :: "string \<Rightarrow> response" where
  "not_modified u =
     \<lparr>status_code = 304, reason = ''Not Modified'', url = u, resp_text = [], body = Not_json\<rparr>"

definition request_url :: "request \<Rightarrow> string" where
  "request_url req = (case req of GET u \<Rightarrow> u | POST u _ _ \<Rightarrow> u)"

definition answers_304 :: network where
  "answers_304 req = Returns (not_modified (request_url req))"

definition london :: user_input where
  "london =
     \<lparr>chosen_level = ''Low'', chosen_type = ''Formal'', entered_location = ''London'',
      submit_clicked = True\<rparr>"

definition weather_reply :: response where
  "weather_reply =
     \<lparr>status_code = 200, reason = ''OK'', url = weather_url ''London'', resp_text = [],
      body = Weather_json (forecast_set [sample 10 50 1 ''Rain''])\<rparr>"

text \<open>A network on which the weather service answers and the recommendation service times out.\<close>

definition weather_only :: network where
  "weather_only req =
     (case req of GET _ \<Rightarrow> Returns weather_reply | POST _ _ _ \<Rightarrow> Raises ''timed out'')"

definition no_outerwear :: "(string \<times> string) list" where
  "no_outerwear =
     [(''Top'', ''T-shirt''), (''Bottom'', ''Jeans''), (''Footwear'', ''Boots''),
      (''Accessories'', ''Umbrella'')]"

definition outfit :: "(string \<times> string) list" where
  "outfit =
     [(''Top'', ''T-shirt''), (''Bottom'', ''Jeans''), (''Footwear'', ''Boots''),
      (''Outerwear'', ''Raincoat''), (''Accessories'', ''Umbrella'')]"

definition outfit_and_hat :: "(string \<times> string) list" where
  "outfit_and_hat = (''Hat'', ''Cap'') # outfit"

text \<open>
  The specification's words for the aggregator's outputs: the arithmetic mean, and the
  most common condition, which is the first label, in input order, whose count no other
  label exceeds.
\<close>

definition mean :: "real list \<Rightarrow> real" where
  "mean xs = sum_list xs / real (length xs)"

text \<open>
  The arithmetic of \<^verbatim>\<open>np.mean\<close> is exact on a list of finite numbers when the double it
  returns is their arithmetic mean, which is so when no step of it rounds.
\<close>

definition exact_on :: "(pyfloat list \<Rightarrow> pyfloat) \<Rightarrow> real list \<Rightarrow> bool" where
  "exact_on float64_mean xs = (float64_mean (map Float xs) = Float (mean xs))"

definition most_frequent_first :: "string list \<Rightarrow> string option" where
  "most_frequent_first conds =
     find (\<lambda>l. list_all (\<lambda>l'. count_list conds l' \<le> count_list conds l) conds) conds"

text \<open>Forecast sets built from rows of temperature, humidity, wind speed and condition.\<close>

type_synonym row = "real \<times> real \<times> real \<times> string"

definition samples :: "row list \<Rightarrow> forecast list" where
  "samples rows = map (\<lambda>(t, h, w, c). sample t h w c) rows"

section \<open>Properties\<close>

lemma module_globals_Counter: "module_globals ''Counter'' = Some prometheus_Counter"
  by (simp add: module_globals_def import_bindings_def)

lemma collections_globals_Counter: "collections_globals ''Counter'' = Some collections_Counter"
  by (simp add: collections_globals_def)

subsection \<open>The aggregator as the module runs it\<close>

text \<open>
  With the module's globals, \<^verbatim>\<open>Counter\<close> at line 162 is the Prometheus class, so the
  function raises on every input: where the loop does not, the call of line 162 does.
\<close>

lemma process_weather_data_raises: "\<exists>e. process_weather_data float64_mean wd = Inl e"
  by (simp add: process_weather_data_def process_weather_data_in_def module_globals_Counter
      split: option.split sum.split prod.split)

text \<open>
  Claim C1. For a non-empty forecast set the three numeric outputs should be the means
  of temperature, humidity and wind speed. On the set with temperatures 10, 12, 14,
  humidities 50, 60, 70 and wind speeds 1, 2, 3 the function returns no output: the
  means are computed at lines 159 to 161 and line 162 then raises \<^verbatim>\<open>TypeError\<close>.
\<close>

theorem process_weather_data_three_samples_raises:
  "process_weather_data float64_mean
     (forecast_set [sample 10 50 1 ''Rain'', sample 12 60 2 ''Rain'', sample 14 70 3 ''Clear''])
   = Inl TypeError"
  by (simp add: process_weather_data_def process_weather_data_in_def module_globals_Counter
      forecast_set_def sample_def)

text \<open>
  Claim C2. The fourth output should be the most frequent condition label, the first
  seen winning a tie, so that the conditions Rain, Clear give Rain. On that input the
  function raises \<^verbatim>\<open>TypeError\<close> at line 162 and gives no label.
\<close>

theorem process_weather_data_rain_clear_raises:
  "process_weather_data float64_mean
     (forecast_set [sample 10 50 1 ''Rain'', sample 12 60 2 ''Clear''])
   = Inl TypeError"
  by (simp add: process_weather_data_def process_weather_data_in_def module_globals_Counter
      forecast_set_def sample_def)

text \<open>
  Claim C8. For a set of exactly one sample the function should return that sample's
  temperature, humidity, wind speed and condition. For every such sample it raises
  \<^verbatim>\<open>TypeError\<close> instead.
\<close>

theorem process_weather_data_single_sample_raises:
  "process_weather_data float64_mean (forecast_set [sample t h w c]) = Inl TypeError"
  by (simp add: process_weather_data_def process_weather_data_in_def module_globals_Counter
      forecast_set_def sample_def)

text \<open>
  Claim C3, as stated: on an empty forecast list the function fails with a dedicated
  \<open>EmptyInputError\<close>. It does not, whatever the arithmetic of \<^verbatim>\<open>np.mean\<close>: as the module
  runs it, the function ends with the \<^verbatim>\<open>TypeError\<close> of line 162.
\<close>

theorem process_weather_data_empty_not_EmptyInputError:
  "\<forall>float64_mean.
     process_weather_data float64_mean (forecast_set []) = Inl TypeError \<and>
     process_weather_data float64_mean (forecast_set []) \<noteq> Inl EmptyInputError"
  by (simp add: process_weather_data_def process_weather_data_in_def module_globals_Counter
      forecast_set_def)

text \<open>
  Claim C3, amended: on an empty forecast list the function returns no value and fails
  with a built-in exception, which line 162 decides. The loop of lines 153 to 157 ends
  with four empty lists and the three means of lines 159 to 161 are \<open>nan\<close>, values and not
  errors. Line 162 then raises: \<^verbatim>\<open>IndexError\<close> when \<^verbatim>\<open>Counter\<close> is the class of \<^verbatim>\<open>collections\<close>
  (the counter of no label is empty, \<^verbatim>\<open>most_common(1)\<close> is the empty list and its subscript
  \<^verbatim>\<open>[0]\<close> fails), \<^verbatim>\<open>TypeError\<close> when it is the class of \<^verbatim>\<open>prometheus_client\<close>, \<^verbatim>\<open>NameError\<close> when
  the name is unbound.
\<close>

theorem process_weather_data_empty_fails:
  "collect [] ([], [], [], []) = Inr ([], [], [], []) \<and>
   np_mean float64_mean [] = NaN \<and>
   call_Counter collections_Counter [] = Inr [] \<and>
   most_common_1 [] = [] \<and>
   process_weather_data_in float64_mean globals (forecast_set []) =
     (case globals ''Counter'' of
        None \<Rightarrow> Inl NameError
      | Some collections_Counter \<Rightarrow> Inl IndexError
      | Some prometheus_Counter \<Rightarrow> Inl TypeError)"
proof -
  have "process_weather_data_in float64_mean globals (forecast_set []) =
     (case globals ''Counter'' of
        None \<Rightarrow> Inl NameError
      | Some collections_Counter \<Rightarrow> Inl IndexError
      | Some prometheus_Counter \<Rightarrow> Inl TypeError)"
  proof (cases "globals ''Counter''")
    case None
    then show ?thesis
      by (simp add: process_weather_data_in_def forecast_set_def)
  next
    case (Some cls)
    then show ?thesis
      by (cases cls)
        (simp_all add: process_weather_data_in_def forecast_set_def count_elements_def
          most_common_1_def)
  qed
  then show ?thesis
    by (simp add: np_mean_def count_elements_def most_common_1_def)
qed

subsection \<open>The aggregator with \<^verbatim>\<open>collections.Counter\<close> in scope\<close>

text \<open>
  What lines 151 to 164 compute when \<^verbatim>\<open>Counter\<close> is the class line 7 imports: the counter
  holds each label once, in order of first occurrence, with its number of occurrences,
  and \<^verbatim>\<open>most_common(1)\<close> picks the first label of highest count.
\<close>

lemma keys_count_element:
  "map fst (count_element kvs k) =
     (if k \<in> set (map fst kvs) then map fst kvs else map fst kvs @ [k])"
  by (induction kvs) (fastforce simp: image_iff)+

lemma map_of_count_element:
  "map_of (count_element kvs k) k' =
     (if k' = k then Some (case map_of kvs k of None \<Rightarrow> 1 | Some c \<Rightarrow> c + 1)
      else map_of kvs k')"
  by (induction kvs) auto

lemma count_elements_snoc:
  "count_elements (xs @ [x]) = count_element (count_elements xs) x"
  by (simp add: count_elements_def)

lemma set_keys_count_elements: "set (map fst (count_elements xs)) = set xs"
proof (induction xs rule: rev_induct)
  case Nil
  show ?case by (simp add: count_elements_def)
next
  case (snoc x xs)
  then show ?case
    by (auto simp: count_elements_snoc keys_count_element simp del: set_map)
qed

lemma distinct_keys_count_elements: "distinct (map fst (count_elements xs))"
proof (induction xs rule: rev_induct)
  case Nil
  show ?case by (simp add: count_elements_def)
next
  case (snoc x xs)
  then show ?case
    by (simp add: count_elements_snoc keys_count_element del: set_map)
qed

lemma map_of_count_elements:
  "map_of (count_elements xs) k =
     (if k \<in> set xs then Some (count_list xs k) else None)"
proof (induction xs rule: rev_induct)
  case Nil
  show ?case by (simp add: count_elements_def)
next
  case (snoc x xs)
  then show ?case
    by (auto simp: count_elements_snoc map_of_count_element)
qed


lemma foldl_keep_larger_snoc: "foldl keep_larger x (ys @ [y]) = keep_larger (foldl keep_larger x ys) y"
  by simp

lemma foldl_keep_larger_mem: "foldl keep_larger x ys \<in> set (x # ys)"
  by (induction ys rule: rev_induct) (auto simp: keep_larger_def)

lemma foldl_keep_larger_max: "y \<in> set (x # ys) \<Longrightarrow> snd y \<le> snd (foldl keep_larger x ys)"
  by (induction ys rule: rev_induct) (auto simp: keep_larger_def)

lemma foldl_keep_larger_first:
  "y \<in> set (takeWhile (\<lambda>z. z \<noteq> foldl keep_larger x ys) (x # ys)) \<Longrightarrow> snd y < snd (foldl keep_larger x ys)"
proof (induction ys rule: rev_induct)
  case Nil
  then show ?case by simp
next
  case (snoc z zs)
  show ?case
  proof (cases "snd (foldl keep_larger x zs) < snd z")
    case True
    then have eq: "foldl keep_larger x (zs @ [z]) = z" by (simp add: keep_larger_def)
    from snoc.prems have "y \<in> set (takeWhile (\<lambda>w. w \<noteq> z) (x # zs @ [z]))"
      by (simp only: eq)
    then have "y \<in> set (x # zs @ [z]) \<and> y \<noteq> z"
      by (rule set_takeWhileD)
    then have "y \<in> set (x # zs)"
      by auto
    then have "snd y \<le> snd (foldl keep_larger x zs)" by (rule foldl_keep_larger_max)
    with True show ?thesis unfolding eq by simp
  next
    case False
    then have eq: "foldl keep_larger x (zs @ [z]) = foldl keep_larger x zs" by (simp add: keep_larger_def)
    have "foldl keep_larger x zs \<in> set (x # zs)" by (rule foldl_keep_larger_mem)
    then have "takeWhile (\<lambda>w. w \<noteq> foldl keep_larger x zs) ((x # zs) @ [z]) =
               takeWhile (\<lambda>w. w \<noteq> foldl keep_larger x zs) (x # zs)"
      by (rule takeWhile_append1) simp
    then have tw: "takeWhile (\<lambda>w. w \<noteq> foldl keep_larger x zs) (x # zs @ [z]) =
               takeWhile (\<lambda>w. w \<noteq> foldl keep_larger x zs) (x # zs)"
      by (simp only: append_Cons)
    from snoc.prems have "y \<in> set (takeWhile (\<lambda>w. w \<noteq> foldl keep_larger x zs) (x # zs @ [z]))"
      by (simp only: eq)
    then have "y \<in> set (takeWhile (\<lambda>w. w \<noteq> foldl keep_larger x zs) (x # zs))"
      by (simp only: tw)
    then show ?thesis unfolding eq by (rule snoc.IH)
  qed
qed


lemma keys_snoc:
  "map fst (count_elements (xs @ [x])) =
     (if x \<in> set xs then map fst (count_elements xs) else map fst (count_elements xs) @ [x])"
  using set_keys_count_elements [of xs]
  by (simp add: count_elements_snoc keys_count_element del: set_map)

lemma keys_before:
  "set (takeWhile (\<lambda>k. k \<noteq> l) (map fst (count_elements xs))) =
   set (takeWhile (\<lambda>k. k \<noteq> l) xs)"
proof (induction xs rule: rev_induct)
  case Nil
  show ?case by (simp add: count_elements_def)
next
  case (snoc x xs)
  have k: "set (map fst (count_elements xs)) = set xs"
    by (rule set_keys_count_elements)
  show ?case
  proof (cases "l \<in> set xs")
    case True
    then have "takeWhile (\<lambda>k. k \<noteq> l) (xs @ [x]) = takeWhile (\<lambda>k. k \<noteq> l) xs"
      by (intro takeWhile_append1 [where x = l]) auto
    moreover from True k have "l \<in> set (map fst (count_elements xs))" by simp
    then have "takeWhile (\<lambda>k. k \<noteq> l) (map fst (count_elements xs) @ [x]) =
               takeWhile (\<lambda>k. k \<noteq> l) (map fst (count_elements xs))"
      by (intro takeWhile_append1 [where x = l]) auto
    ultimately show ?thesis
      using snoc.IH by (simp add: keys_snoc)
  next
    case False
    then have a: "takeWhile (\<lambda>k. k \<noteq> l) xs = xs"
      by (intro takeWhile_eq_all_conv [THEN iffD2]) auto
    from False k have b: "takeWhile (\<lambda>k. k \<noteq> l) (map fst (count_elements xs)) = map fst (count_elements xs)"
      by (intro takeWhile_eq_all_conv [THEN iffD2]) auto
    from False have c: "takeWhile (\<lambda>k. k \<noteq> l) (xs @ [x]) = xs @ takeWhile (\<lambda>k. k \<noteq> l) [x]"
      by (intro takeWhile_append2) auto
    from False k have d: "takeWhile (\<lambda>k. k \<noteq> l) (map fst (count_elements xs) @ [x]) =
        map fst (count_elements xs) @ takeWhile (\<lambda>k. k \<noteq> l) [x]"
      by (intro takeWhile_append2) auto
    show ?thesis
      using k by (auto simp: keys_snoc b c d simp del: set_map)
  qed
qed


lemma find_first:
  "x \<in> set xs \<Longrightarrow> P x \<Longrightarrow> \<forall>y \<in> set (takeWhile (\<lambda>y. y \<noteq> x) xs). \<not> P y \<Longrightarrow>
   find P xs = Some x"
proof (induction xs)
  case Nil
  then show ?case by simp
next
  case (Cons a xs)
  show ?case
  proof (cases "a = x")
    case True
    with Cons.prems show ?thesis by simp
  next
    case False
    with Cons.prems have "\<not> P a" and "x \<in> set xs"
      and "\<forall>y \<in> set (takeWhile (\<lambda>y. y \<noteq> x) xs). \<not> P y"
      by simp_all
    with Cons.IH Cons.prems(2) show ?thesis by simp
  qed
qed

lemma count_elements_mem:
  "(k, c) \<in> set (count_elements xs) \<longleftrightarrow> k \<in> set xs \<and> c = count_list xs k"
proof -
  have "(k, c) \<in> set (count_elements xs) \<longleftrightarrow> map_of (count_elements xs) k = Some c"
    using distinct_keys_count_elements [of xs] by (auto intro: map_of_is_SomeI dest: map_of_SomeD)
  then show ?thesis
    by (auto simp: map_of_count_elements)
qed

lemma most_common_1_refines:
  assumes "conds \<noteq> []"
  shows "\<exists>l. most_frequent_first conds = Some l \<and>
             most_common_1 (count_elements conds) = [(l, count_list conds l)]"
proof -
  from assms have "set (map fst (count_elements conds)) \<noteq> {}"
    by (simp add: set_keys_count_elements del: set_map)
  then obtain x ys where items: "count_elements conds = x # ys"
    by (cases "count_elements conds") auto
  define b where "b = foldl keep_larger x ys"
  obtain l c where b: "b = (l, c)" by (cases b)
  have mem: "(l, c) \<in> set (count_elements conds)"
    using foldl_keep_larger_mem [of x ys] by (simp add: items b_def [symmetric] b)
  then have l: "l \<in> set conds" and c: "c = count_list conds l"
    by (simp_all add: count_elements_mem)
  have max: "count_list conds l' \<le> c" if "l' \<in> set conds" for l'
  proof -
    from that have "(l', count_list conds l') \<in> set (x # ys)"
      by (simp add: count_elements_mem items [symmetric])
    then have "snd (l', count_list conds l') \<le> snd (foldl keep_larger x ys)"
      by (rule foldl_keep_larger_max)
    then show ?thesis by (simp add: b_def [symmetric] b)
  qed
  have before: "count_list conds l' < c" if "l' \<in> set (takeWhile (\<lambda>k. k \<noteq> l) conds)" for l'
  proof -
    from that have "l' \<in> set (takeWhile (\<lambda>k. k \<noteq> l) (map fst (count_elements conds)))"
      by (simp only: keys_before)
    then have "l' \<in> set (map fst (takeWhile ((\<lambda>k. k \<noteq> l) \<circ> fst) (count_elements conds)))"
      by (simp only: takeWhile_map)
    then obtain z where z: "z \<in> set (takeWhile ((\<lambda>k. k \<noteq> l) \<circ> fst) (count_elements conds))"
      and fz: "fst z = l'"
      by auto
    have "takeWhile ((\<lambda>k. k \<noteq> l) \<circ> fst) (x # ys) = takeWhile (\<lambda>z. z \<noteq> b) (x # ys)"
    proof (rule takeWhile_cong [OF refl])
      fix w assume "w \<in> set (x # ys)"
      then have w: "w \<in> set (count_elements conds)" by (simp add: items)
      obtain k n where kn: "w = (k, n)" by (cases w)
      from w mem show "((\<lambda>k. k \<noteq> l) \<circ> fst) w = (w \<noteq> b)"
        by (auto simp: kn b count_elements_mem)
    qed
    with z have z': "z \<in> set (takeWhile (\<lambda>z. z \<noteq> foldl keep_larger x ys) (x # ys))"
      by (simp only: items b_def)
    then have "snd z < snd (foldl keep_larger x ys)"
      by (rule foldl_keep_larger_first)
    moreover have "snd z = count_list conds l'"
    proof -
      from z' have "z \<in> set (x # ys)"
        by (rule set_takeWhileD [THEN conjunct1])
      then have "(fst z, snd z) \<in> set (count_elements conds)"
        by (simp add: items)
      then show ?thesis
        by (simp add: count_elements_mem fz)
    qed
    ultimately show ?thesis
      by (simp add: b_def [symmetric] b)
  qed
  have "most_frequent_first conds = Some l"
    unfolding most_frequent_first_def
  proof (rule find_first)
    show "l \<in> set conds" by (rule l)
    show "list_all (\<lambda>l'. count_list conds l' \<le> count_list conds l) conds"
      using max by (simp add: list_all_iff c)
    show "\<forall>y\<in>set (takeWhile (\<lambda>y. y \<noteq> l) conds).
            \<not> list_all (\<lambda>l'. count_list conds l' \<le> count_list conds y) conds"
    proof
      fix y assume "y \<in> set (takeWhile (\<lambda>y. y \<noteq> l) conds)"
      then have "count_list conds y < count_list conds l"
        using before by (simp add: c)
      then have "\<not> count_list conds l \<le> count_list conds y"
        by simp
      with l show "\<not> list_all (\<lambda>l'. count_list conds l' \<le> count_list conds y) conds"
        unfolding list_all_iff by blast
    qed
  qed
  moreover have "most_common_1 (count_elements conds) = [(l, count_list conds l)]"
    by (simp add: most_common_1_def items b_def [symmetric] b c)
  ultimately show ?thesis by blast
qed

lemma collect_samples:
  "collect (samples rows) (ts, hs, ws, cs) =
     Inr (ts @ map Float (map (\<lambda>(t, h, w, c). t) rows),
          hs @ map Float (map (\<lambda>(t, h, w, c). h) rows),
          ws @ map Float (map (\<lambda>(t, h, w, c). w) rows),
          cs @ map (\<lambda>(t, h, w, c). c) rows)"
proof (induction rows arbitrary: ts hs ws cs)
  case Nil
  show ?case by (simp add: samples_def)
next
  case (Cons r rows)
  obtain t h w c where r: "r = (t, h, w, c)" by (cases r)
  have "collect (samples (r # rows)) (ts, hs, ws, cs) =
        collect (samples rows) (ts @ [Float t], hs @ [Float h], ws @ [Float w], cs @ [c])"
    by (simp add: samples_def r sample_def)
  then show ?case
    by (simp add: Cons.IH r)
qed

text \<open>
  The outputs for a non-empty set of complete entries: \<^verbatim>\<open>np.mean\<close> of each column, and the
  first label of highest count.
\<close>

lemma aggregate_with_collections_Counter:
  assumes "rows \<noteq> []"
  shows "\<exists>l. most_frequent_first (map (\<lambda>(t, h, w, c). c) rows) = Some l \<and>
    process_weather_data_in float64_mean collections_globals (forecast_set (samples rows)) =
      Inr (float64_mean (map Float (map (\<lambda>(t, h, w, c). t) rows)),
           float64_mean (map Float (map (\<lambda>(t, h, w, c). h) rows)),
           float64_mean (map Float (map (\<lambda>(t, h, w, c). w) rows)), l)"
proof -
  from assms have "map (\<lambda>(t, h, w, c). c) rows \<noteq> []" by simp
  from most_common_1_refines [OF this] obtain l
    where l: "most_frequent_first (map (\<lambda>(t, h, w, c). c) rows) = Some l"
      and m: "most_common_1 (count_elements (map (\<lambda>(t, h, w, c). c) rows)) =
                [(l, count_list (map (\<lambda>(t, h, w, c). c) rows) l)]"
    by blast
  have "process_weather_data_in float64_mean collections_globals (forecast_set (samples rows)) =
      Inr (float64_mean (map Float (map (\<lambda>(t, h, w, c). t) rows)),
           float64_mean (map Float (map (\<lambda>(t, h, w, c). h) rows)),
           float64_mean (map Float (map (\<lambda>(t, h, w, c). w) rows)), l)"
    using assms
    by (simp add: process_weather_data_in_def forecast_set_def collect_samples
        collections_globals_Counter m np_mean_def)
  with l show ?thesis by blast
qed

text \<open>
  Where the arithmetic of \<^verbatim>\<open>np.mean\<close> is exact on the three columns, the numeric outputs are
  their arithmetic means.
\<close>

lemma aggregate_exact_with_collections_Counter:
  assumes "rows \<noteq> []"
    and "exact_on float64_mean (map (\<lambda>(t, h, w, c). t) rows)"
    and "exact_on float64_mean (map (\<lambda>(t, h, w, c). h) rows)"
    and "exact_on float64_mean (map (\<lambda>(t, h, w, c). w) rows)"
  shows "\<exists>l. most_frequent_first (map (\<lambda>(t, h, w, c). c) rows) = Some l \<and>
    process_weather_data_in float64_mean collections_globals (forecast_set (samples rows)) =
      Inr (Float (mean (map (\<lambda>(t, h, w, c). t) rows)),
           Float (mean (map (\<lambda>(t, h, w, c). h) rows)),
           Float (mean (map (\<lambda>(t, h, w, c). w) rows)), l)"
  using aggregate_with_collections_Counter [OF assms(1), of float64_mean] assms(2-4)
  by (simp add: exact_on_def)

lemma single_sample_with_collections_Counter:
  "process_weather_data_in float64_mean collections_globals (forecast_set [sample t h w c]) =
     Inr (float64_mean [Float t], float64_mean [Float h], float64_mean [Float w], c)"
  by (simp add: process_weather_data_in_def forecast_set_def sample_def
        collections_globals_Counter np_mean_def count_elements_def most_common_1_def)

lemma rain_clear_with_collections_Counter:
  "process_weather_data_in float64_mean collections_globals
     (forecast_set [sample 10 50 1 ''Rain'', sample 12 60 2 ''Clear'']) =
   Inr (float64_mean [Float 10, Float 12], float64_mean [Float 50, Float 60],
        float64_mean [Float 1, Float 2], ''Rain'')"
  by (simp add: process_weather_data_in_def forecast_set_def sample_def
        collections_globals_Counter np_mean_def count_elements_def most_common_1_def keep_larger_def)

subsection \<open>The request client\<close>

lemma raise_for_status_cases:
  "(if 400 \<le> status_code r \<and> status_code r < 600
    then \<exists>msg. raise_for_status r = Inl (RequestException msg)
    else raise_for_status r = Inr ())"
  by (simp add: raise_for_status_def)

text \<open>The body of the \<^verbatim>\<open>try\<close> for the two methods of the precondition: one request, once.\<close>

lemma send_request_try_eq:
  assumes "method = ''GET'' \<or> method = ''POST''"
  shows "send_request_try net u method json_data s =
     (s\<lparr>sent := sent s @ [request_for method u json_data]\<rparr>,
      case net (request_for method u json_data) of
        Raises msg \<Rightarrow> Inl (RequestException msg)
      | Returns r \<Rightarrow> (case raise_for_status r of Inl e \<Rightarrow> Inl e | Inr _ \<Rightarrow> Inr r))"
proof (cases "method = ''GET''")
  case True
  then show ?thesis
    by (simp add: send_request_try_def requests_get_def request_for_def
        split: exchange.split sum.split)
next
  case False
  with assms have "method = ''POST''" by simp
  then show ?thesis
    by (simp add: send_request_try_def requests_post_def request_for_def
        split: exchange.split sum.split)
qed

lemma send_request_failure:
  assumes m: "method = ''GET'' \<or> method = ''POST''"
    and f: "exchange_fails (net (request_for method u json_data))"
  shows "\<exists>msg. send_request net u method json_data s =
           (s\<lparr>sent := sent s @ [request_for method u json_data],
              ui := ui s @ [St_error (''HTTP request failed: '' @ msg)]\<rparr>, Inr None)"
proof (cases "net (request_for method u json_data)")
  case (Raises msg)
  then have "send_request net u method json_data s =
           (s\<lparr>sent := sent s @ [request_for method u json_data],
              ui := ui s @ [St_error (''HTTP request failed: '' @ msg)]\<rparr>, Inr None)"
    by (simp add: send_request_def send_request_try_eq [OF m] emit_def)
  then show ?thesis ..
next
  case (Returns r)
  with f have "400 \<le> status_code r \<and> status_code r < 600"
    by (simp add: exchange_fails_def)
  with raise_for_status_cases [of r] obtain msg
    where "raise_for_status r = Inl (RequestException msg)"
    by auto
  with Returns have "send_request net u method json_data s =
           (s\<lparr>sent := sent s @ [request_for method u json_data],
              ui := ui s @ [St_error (''HTTP request failed: '' @ msg)]\<rparr>, Inr None)"
    by (simp add: send_request_def send_request_try_eq [OF m] emit_def)
  then show ?thesis ..
qed





text \<open>
  Claim C9. For every method other than \<^verbatim>\<open>GET\<close> and \<^verbatim>\<open>POST\<close>, \<^verbatim>\<open>send_request\<close> sends
  nothing, shows nothing and raises \<^verbatim>\<open>UnboundLocalError\<close>, which its handler does not catch;
  for \<^verbatim>\<open>GET\<close> and \<^verbatim>\<open>POST\<close> it never raises that error.
\<close>

theorem send_request_unbound_iff:
  "(if method = ''GET'' \<or> method = ''POST''
    then snd (send_request net u method json_data s) \<noteq> Inl UnboundLocalError
    else send_request net u method json_data s = (s, Inl UnboundLocalError))"
proof (cases "method = ''GET'' \<or> method = ''POST''")
  case True
  have "raise_for_status r \<noteq> Inl UnboundLocalError" for r
    by (simp add: raise_for_status_def)
  with True show ?thesis
    by (simp add: send_request_def send_request_try_eq [OF True]
        split: exchange.split sum.split py_error.split)
next
  case False
  then show ?thesis
    by (simp add: send_request_def send_request_try_def)
qed

theorem send_request_unbound_iff_witness:
  "send_request answers_304 lambda_url ''PUT'' None blank_page =
     (blank_page, Inl UnboundLocalError) \<and>
   snd (send_request answers_304 lambda_url ''POST'' None blank_page) \<noteq>
     Inl UnboundLocalError"
  using send_request_unbound_iff [of "''PUT''" answers_304 lambda_url None blank_page]
    send_request_unbound_iff [of "''POST''" answers_304 lambda_url None blank_page]
  by simp

subsection \<open>The presentation formatter\<close>

text \<open>
  Claim C7. A dictionary with all five clothing-slot keys is formatted; a dictionary
  missing one of them raises \<^verbatim>\<open>KeyError\<close> for a missing slot and produces no markup.
\<close>

theorem format_outfit_suggestions_KeyError_iff:
  "(if set clothing_slots \<subseteq> dom suggestions
    then \<exists>html. format_outfit_suggestions suggestions = Inr html
    else \<exists>k. k \<in> set clothing_slots \<and> k \<notin> dom suggestions \<and>
             format_outfit_suggestions suggestions = Inl (KeyError k))"
  by (auto simp: format_outfit_suggestions_def getitem_def clothing_slots_def dom_def
      split: option.splits)

theorem format_outfit_suggestions_KeyError_iff_witness:
  "format_outfit_suggestions (map_of no_outerwear) = Inl (KeyError ''Outerwear'') \<and>
   (\<exists>html. format_outfit_suggestions (map_of outfit) = Inr html)"
  using format_outfit_suggestions_KeyError_iff [of "map_of no_outerwear"]
    format_outfit_suggestions_KeyError_iff [of "map_of outfit"]
  by (auto simp: clothing_slots_def no_outerwear_def outfit_def dom_def split: if_splits)

text \<open>
  Claim C10. Two dictionaries that both have the five clothing-slot keys and agree on
  their values are formatted to the same string, whatever other keys they hold.
\<close>

theorem format_outfit_suggestions_depends_on_slots:
  assumes "set clothing_slots \<subseteq> dom s1" and "set clothing_slots \<subseteq> dom s2"
    and "\<forall>k \<in> set clothing_slots. s1 k = s2 k"
  shows "format_outfit_suggestions s1 = format_outfit_suggestions s2"
proof -
  have same: "getitem s1 k = getitem s2 k" if "k \<in> set clothing_slots" for k
    using that assms(3) by (simp add: getitem_def)
  have "getitem s1 ''Top'' = getitem s2 ''Top''"
    and "getitem s1 ''Bottom'' = getitem s2 ''Bottom''"
    and "getitem s1 ''Footwear'' = getitem s2 ''Footwear''"
    and "getitem s1 ''Outerwear'' = getitem s2 ''Outerwear''"
    and "getitem s1 ''Accessories'' = getitem s2 ''Accessories''"
    by (simp_all add: same clothing_slots_def)
  then show ?thesis
    unfolding format_outfit_suggestions_def by (simp cong: sum.case_cong)
qed

theorem format_outfit_suggestions_depends_on_slots_witness:
  "set clothing_slots \<subseteq> dom (map_of outfit) \<and>
   set clothing_slots \<subseteq> dom (map_of outfit_and_hat) \<and>
   map_of outfit ''Hat'' \<noteq> map_of outfit_and_hat ''Hat'' \<and>
   format_outfit_suggestions (map_of outfit) = format_outfit_suggestions (map_of outfit_and_hat)"
proof -
  have a: "set clothing_slots \<subseteq> dom (map_of outfit)"
    by (simp add: clothing_slots_def outfit_def)
  have b: "set clothing_slots \<subseteq> dom (map_of outfit_and_hat)"
    by (simp add: clothing_slots_def outfit_def outfit_and_hat_def)
  have c: "\<forall>k \<in> set clothing_slots. map_of outfit k = map_of outfit_and_hat k"
    by (simp add: clothing_slots_def outfit_def outfit_and_hat_def)
  have d: "map_of outfit ''Hat'' \<noteq> map_of outfit_and_hat ''Hat''"
    by (simp add: outfit_def outfit_and_hat_def)
  from a b d format_outfit_suggestions_depends_on_slots [OF a b c] show ?thesis
    by blast
qed

subsection \<open>The page controller\<close>

text \<open>
  Claim C5. Every failure of a submission should end in a message and none in an
  uncaught exception, also when \<^verbatim>\<open>send_request\<close> returned \<^verbatim>\<open>None\<close>. With the location London
  and a weather request that times out, \<^verbatim>\<open>send_request\<close> returns \<^verbatim>\<open>None\<close> and line 367 reads
  \<^verbatim>\<open>weather_response.status_code\<close>: \<^verbatim>\<open>AttributeError\<close> leaves \<^verbatim>\<open>single_page_app\<close>.
\<close>

theorem single_page_app_weather_timeout_raises:
  "snd (single_page_app float64_mean (\<lambda>_. Raises ''timed out'') london s) = Inl AttributeError"
  by (simp add: single_page_app_def single_page_app_in_def london_def send_request_def
      send_request_try_def requests_get_def is_200_def report_failure_def attr_status_code_def
      Let_def)

text \<open>
  The same for every submission whose weather request fails, whatever the location and
  the failure: the message of line 367 is never shown for a failed request, since
  \<^verbatim>\<open>send_request\<close> has turned every raising exchange into \<^verbatim>\<open>None\<close>.
\<close>

lemma weather_failure_raises:
  assumes sub: "submit_clicked inp" and loc: "entered_location inp \<noteq> []"
    and fails: "exchange_fails (net (GET (weather_url (entered_location inp))))"
  shows "snd (single_page_app_in float64_mean globals net inp s) = Inl AttributeError"
proof -
  have g: "''GET'' = ''GET'' \<or> ''GET'' = ''POST''" by simp
  have r: "request_for ''GET'' u None = GET u" for u
    by (simp add: request_for_def)
  from fails have f: "exchange_fails (net (request_for ''GET'' (weather_url (entered_location inp)) None))"
    by (simp only: r)
  have R: "b = Inr None"
    if "send_request net (weather_url (entered_location inp)) ''GET'' None s0 = (a, b)" for s0 a b
    using send_request_failure [of "''GET''" "net" "weather_url (entered_location inp)" None s0] g f that
    by auto
  show ?thesis
    using sub loc
    by (auto simp: single_page_app_in_def Let_def is_200_def report_failure_def attr_status_code_def
        split: prod.split sum.split dest!: R)
qed

text \<open>
  The same slip at line 358, reached once \<^verbatim>\<open>Counter\<close> is the class of \<^verbatim>\<open>collections\<close>: the
  recommendation request times out and \<^verbatim>\<open>lambda_response.status_code\<close> is read on \<^verbatim>\<open>None\<close>.
\<close>

lemma recommendation_timeout_raises:
  "snd (single_page_app_in float64_mean collections_globals weather_only london s) =
     Inl AttributeError"
  by (simp add: single_page_app_in_def london_def send_request_def send_request_try_def
      requests_get_def requests_post_def is_200_def report_failure_def attr_status_code_def
      weather_only_def weather_reply_def raise_for_status_def ok_def weather_try_def
      json_weather_def list_branch_def process_weather_data_in_def collections_globals_Counter
      forecast_set_def sample_def np_mean_def count_elements_def most_common_1_def Let_def)

text \<open>
  With the module's own globals a weather reply that has a \<^verbatim>\<open>'list'\<close> never gets that far:
  the \<^verbatim>\<open>TypeError\<close> of line 162 is no \<^verbatim>\<open>ValueError\<close> and leaves the page controller.
\<close>

lemma weather_list_raises:
  "snd (single_page_app float64_mean weather_only london s) = Inl TypeError"
  by (simp add: single_page_app_def single_page_app_in_def london_def send_request_def
      send_request_try_def requests_get_def is_200_def weather_only_def weather_reply_def
      raise_for_status_def ok_def weather_try_def json_weather_def list_branch_def
      process_weather_data_in_def module_globals_Counter forecast_set_def sample_def Let_def)

subsection \<open>Loading the module\<close>

text \<open>The loop of lines 23 and 24 has no exit.\<close>

lemma while_True_diverges: "while_True randint t = None"
proof (cases "while_True randint t")
  case None
  then show ?thesis .
next
  case (Some t')
  have False
  proof (rule while_True.raw_induct [where P = "\<lambda>_ _ _. False", OF _ Some])
    fix loop r a b
    assume "\<And>r a b. loop r a = Some b \<Longrightarrow> False" and "loop r (handle_request r a) = Some b"
    then show False by blast
  qed
  then show ?thesis ..
qed

text \<open>
  Claim C4. Loading the module should finish its initialisation and reach the page
  controller, with no telemetry loop in the way. It never does: when the metrics
  server starts, the loop of lines 23 and 24 runs for ever and loading does not
  return; when the port is taken, loading raises \<^verbatim>\<open>OSError\<close>. In neither case is
  \<^verbatim>\<open>single_page_app\<close> defined or called.
\<close>

theorem module_toplevel_never_reaches_page:
  "module_toplevel float64_mean randint port_free is_main net inp s =
     (if port_free then None else Some (s, Inl OSError))"
  by (simp add: module_toplevel_def start_http_server_def while_True_diverges)


end
